theory Spec2Isabelle
  imports Complex_Main "HOL-Library.Sublist"
begin

section \<open>AI Job Interview Assistant: the request pipeline of \<^verbatim>\<open>main.py\<close>\<close>

text \<open>
  The service is one Python module. At import time it reads the API key and builds the
  model client; afterwards it answers two GET routes and four POST routes. Every POST
  handler echoes the three request fields (after defaulting), builds one agent, one task
  and one crew through the agent framework, runs the crew inside \<^verbatim>\<open>try\<close>, and returns a
  dict of four entries.

  The agent framework and the validation library are not part of the module. The calls
  into the agent framework are modelled by an oracle (\<open>framework\<close>) that says, for every
  argument, whether the call raises or what it returns; each handler performs each of
  its calls at most once, so every run of a handler is the run under some oracle. The
  calls a handler makes and the lines it prints are collected in a list of events.
\<close>

subsection \<open>JSON values and request validation\<close>

text \<open>
  A float as \<^verbatim>\<open>json.loads\<close> produces it. The parser reads \<^verbatim>\<open>NaN\<close>, \<^verbatim>\<open>Infinity\<close> and
  \<^verbatim>\<open>-Infinity\<close>, and a literal too large for a double (\<^verbatim>\<open>1e400\<close>) becomes an infinity.
  Of a finite float only its value matters here.
\<close>

datatype py_float = Finite rat | Pos_Infinity | Neg_Infinity | NaN

fun is_finite :: "py_float \<Rightarrow> bool" where
  "is_finite (Finite _) = True"
| "is_finite _ = False"

text \<open>
  A parsed JSON value: \<open>JNum\<close> is an integer literal, \<open>JFloat\<close> any other number. A
  string is well-formed text. Every value that is not a string or null is rejected by the
  validation of all three fields alike.
\<close>

datatype json =
    JNull
  | JBool bool
  | JNum int
  | JFloat py_float
  | JStr string
  | JArr "json list"
  | JObj "(string \<times> json) list"

text \<open>
  The members of a JSON object are kept in the order of the text. A key that occurs
  twice has the value of its last occurrence, as in the dict that \<^verbatim>\<open>json.loads\<close> builds.
\<close>

definition dict_get :: "(string \<times> json) list \<Rightarrow> string \<Rightarrow> json option" where
  "dict_get kvs k = map_of (rev kvs) k"

text \<open>
  \<^verbatim>\<open>
  class JobRoleRequest(BaseModel):
      role: str
      experience_level: str | None = "Fresher"
      tech_stack: str | None = None
  \<close>
\<close>

record JobRoleRequest =
  role :: string
  experience_level :: "string option"
  tech_stack :: "string option"

text \<open>
  Validation of one field against its annotation; \<open>None\<close> is a validation error.
  A field annotated \<^verbatim>\<open>str\<close> takes a JSON string only; \<^verbatim>\<open>str | None\<close> also takes null.
\<close>

fun validate_str :: "json \<Rightarrow> string option" where
  "validate_str (JStr s) = Some s"
| "validate_str _ = None"

fun validate_optional_str :: "json \<Rightarrow> string option option" where
  "validate_optional_str JNull = Some None"
| "validate_optional_str (JStr s) = Some (Some s)"
| "validate_optional_str _ = None"

text \<open>
  Validation of a request body against \<^verbatim>\<open>JobRoleRequest\<close>: the body has to be an object;
  \<^verbatim>\<open>role\<close> is required; a field with a default takes the default when its key is
  absent; members with other keys are ignored. \<open>None\<close> is the validation error that the
  web framework answers with status 422.
\<close>

fun JobRoleRequest_validate :: "json \<Rightarrow> JobRoleRequest option" where
  "JobRoleRequest_validate (JObj kvs) =
     (case dict_get kvs ''role'' of
        None \<Rightarrow> None
      | Some rv \<Rightarrow>
         (case validate_str rv of
            None \<Rightarrow> None
          | Some r \<Rightarrow>
             (case (case dict_get kvs ''experience_level'' of
                      None \<Rightarrow> Some (Some ''Fresher'')
                    | Some ev \<Rightarrow> validate_optional_str ev) of
                None \<Rightarrow> None
              | Some e \<Rightarrow>
                 (case (case dict_get kvs ''tech_stack'' of
                          None \<Rightarrow> Some None
                        | Some tv \<Rightarrow> validate_optional_str tv) of
                    None \<Rightarrow> None
                  | Some t \<Rightarrow>
                      Some \<lparr>role = r, experience_level = e, tech_stack = t\<rparr>))))"
| "JobRoleRequest_validate _ = None"

text \<open>
  What the validation library reports for a body that fails: one error for each field at
  fault, with its kind, its location and the input it rejected. A missing field is
  reported with the whole object as input, a value of the wrong type with that value, a
  body that is not an object with the body.
\<close>

datatype validation_error =
  ValidationError (err_type: string) (err_loc: "string list") (err_input: json)

fun str_errors :: "string list \<Rightarrow> json \<Rightarrow> validation_error list" where
  "str_errors loc (JStr s) = []"
| "str_errors loc v = [ValidationError ''string_type'' loc v]"

fun optional_str_errors :: "string list \<Rightarrow> json \<Rightarrow> validation_error list" where
  "optional_str_errors loc JNull = []"
| "optional_str_errors loc (JStr s) = []"
| "optional_str_errors loc v = [ValidationError ''string_type'' loc v]"

fun validation_errors :: "json \<Rightarrow> validation_error list" where
  "validation_errors (JObj kvs) =
     (case dict_get kvs ''role'' of
        None \<Rightarrow> [ValidationError ''missing'' [''body'', ''role''] (JObj kvs)]
      | Some rv \<Rightarrow> str_errors [''body'', ''role''] rv)
     @ (case dict_get kvs ''experience_level'' of
          None \<Rightarrow> []
        | Some ev \<Rightarrow> optional_str_errors [''body'', ''experience_level''] ev)
     @ (case dict_get kvs ''tech_stack'' of
          None \<Rightarrow> []
        | Some tv \<Rightarrow> optional_str_errors [''body'', ''tech_stack''] tv)"
| "validation_errors b = [ValidationError ''model_attributes_type'' [''body''] b]"

text \<open>
  Whether a value, as the Python object that the parser built, holds a float that is not
  finite. Of the members of an object only those count that the dict keeps: for a key
  that occurs twice, the last one.
\<close>

fun has_non_finite :: "json \<Rightarrow> bool" where
  "has_non_finite (JFloat x) = (\<not> is_finite x)"
| "has_non_finite (JArr xs) = list_ex has_non_finite xs"
| "has_non_finite (JObj kvs) =
     list_ex (\<lambda>(k, v). dict_get kvs k = Some v \<and> has_non_finite v) kvs"
| "has_non_finite _ = False"

text \<open>
  Python's \<^verbatim>\<open>x or d\<close> on a value of type \<^verbatim>\<open>str | None\<close>: \<^verbatim>\<open>None\<close> and the empty string
  are falsy.
\<close>

fun py_or :: "string option \<Rightarrow> string \<Rightarrow> string" where
  "py_or None d = d"
| "py_or (Some s) d = (if s = [] then d else s)"

subsection \<open>Startup\<close>

text \<open>
  \<^verbatim>\<open>
  load_dotenv()
  GEMINI_API_KEY = os.getenv("GEMINI_API_KEY")
  if GEMINI_API_KEY is None:
      raise ValueError("GEMINI_API_KEY is not set. Please add it to your .env file.")
  gemini_llm = LLM(model="gemini/gemini-2.5-pro", api_key=GEMINI_API_KEY, temperature=0.4)
  \<close>
  The process environment is a map from names to values. \<^verbatim>\<open>load_dotenv()\<close> adds the
  entries of the \<^verbatim>\<open>.env\<close> file (the empty map when there is none) for the names the
  environment does not have yet; it never overrides.
\<close>

type_synonym environ = "string \<rightharpoonup> string"

definition load_dotenv :: "environ \<Rightarrow> environ \<Rightarrow> environ" where
  "load_dotenv dotenv env = dotenv ++ env"

definition os_getenv :: "environ \<Rightarrow> string \<Rightarrow> string option" where
  "os_getenv env name = env name"

record LLM =
  model :: string
  api_key :: string
  temperature :: rat

datatype startup_error = ValueError string

text \<open>
  Module initialisation up to and including the construction of the model client.
  \<open>Inl\<close> is the exception that ends the import, so that the server has no application to
  run. The statements that follow in the module (the application object, the static
  mount, the CORS middleware, the route table) come after the check.
\<close>

definition module_init :: "environ \<Rightarrow> environ \<Rightarrow> startup_error + LLM" where
  "module_init dotenv env =
     (let env' = load_dotenv dotenv env;
          GEMINI_API_KEY = os_getenv env' ''GEMINI_API_KEY''
      in case GEMINI_API_KEY of
           None \<Rightarrow> Inl (ValueError ''GEMINI_API_KEY is not set. Please add it to your .env file.'')
         | Some k \<Rightarrow>
             Inr \<lparr>model = ''gemini/gemini-2.5-pro'', api_key = k, temperature = 4 / 10\<rparr>)"

subsection \<open>The agent framework\<close>

record agent =
  agent_role :: string
  goal :: string
  backstory :: string
  llm :: LLM
  verbose :: bool

record task =
  description :: string
  expected_output :: string
  task_agent :: agent

record crew =
  agents :: "agent list"
  tasks :: "task list"
  crew_verbose :: bool

text \<open>
  An exception object: an instance of Python's \<^verbatim>\<open>Exception\<close>, the class the handlers'
  \<^verbatim>\<open>except Exception as e\<close> ranges over (network failure, authentication failure,
  malformed provider response, a rejected constructor argument). \<open>str_of e\<close> is
  \<^verbatim>\<open>str(e)\<close>, the text an f-string renders for \<^verbatim>\<open>{e}\<close>.
\<close>

datatype exception = Exception (str_of: string)

text \<open>The object \<^verbatim>\<open>crew.kickoff()\<close> returns; \<open>str_output\<close> is \<^verbatim>\<open>str(result)\<close>.\<close>

datatype crew_output = CrewOutput (str_output: string)

text \<open>
  The oracle for the framework: whether a constructor call raises (\<open>Some e\<close>) or
  returns the object (\<open>None\<close>), and what \<^verbatim>\<open>kickoff\<close> raises or returns.
\<close>

record framework =
  Agent_init :: "agent \<Rightarrow> exception option"
  Task_init :: "task \<Rightarrow> exception option"
  Crew_init :: "crew \<Rightarrow> exception option"
  Crew_kickoff :: "crew \<Rightarrow> exception + crew_output"

datatype event =
    Agent_call agent
  | Task_call task
  | Crew_call crew
  | Kickoff_call crew
  | Print string
  | Print_exc exception

text \<open>
  A computation inside a \<^verbatim>\<open>try\<close> block: the exception that left it or its value, and
  the events it produced. \<open>bind_try\<close> is sequencing: the first exception ends the block.
\<close>

type_synonym 'a comp = "(exception + 'a) \<times> event list"

definition bind_try :: "'a comp \<Rightarrow> ('a \<Rightarrow> 'b comp) \<Rightarrow> 'b comp" where
  "bind_try m f =
     (case m of
        (Inl e, evs) \<Rightarrow> (Inl e, evs)
      | (Inr x, evs) \<Rightarrow> (case f x of (r, evs') \<Rightarrow> (r, evs @ evs')))"

definition Agent :: "framework \<Rightarrow> agent \<Rightarrow> agent comp" where
  "Agent fw a =
     (case Agent_init fw a of Some e \<Rightarrow> (Inl e, [Agent_call a]) | None \<Rightarrow> (Inr a, [Agent_call a]))"

definition Task :: "framework \<Rightarrow> task \<Rightarrow> task comp" where
  "Task fw t =
     (case Task_init fw t of Some e \<Rightarrow> (Inl e, [Task_call t]) | None \<Rightarrow> (Inr t, [Task_call t]))"

definition Crew :: "framework \<Rightarrow> crew \<Rightarrow> crew comp" where
  "Crew fw c =
     (case Crew_init fw c of Some e \<Rightarrow> (Inl e, [Crew_call c]) | None \<Rightarrow> (Inr c, [Crew_call c]))"

definition kickoff :: "framework \<Rightarrow> crew \<Rightarrow> crew_output comp" where
  "kickoff fw c = (Crew_kickoff fw c, [Kickoff_call c])"

definition build_career_agent :: "framework \<Rightarrow> LLM \<Rightarrow> agent comp" where
  "build_career_agent fw gemini_llm =
     Agent fw \<lparr>agent_role = ''Career Research Expert'',
               goal = ''Explain job roles, skills, learning paths, and expectations.'',
               backstory = ''You help students understand technical job profiles.'',
               llm = gemini_llm,
               verbose = True\<rparr>"

definition build_technical_agent :: "framework \<Rightarrow> LLM \<Rightarrow> agent comp" where
  "build_technical_agent fw gemini_llm =
     Agent fw \<lparr>agent_role = ''Technical Interview Expert'',
               goal = ''Generate technical interview questions and detailed answers based on job role.'',
               backstory = ''You have experience as a technical interviewer across IT companies.'',
               llm = gemini_llm,
               verbose = True\<rparr>"

definition build_hr_agent :: "framework \<Rightarrow> LLM \<Rightarrow> agent comp" where
  "build_hr_agent fw gemini_llm =
     Agent fw \<lparr>agent_role = ''HR Interview & Soft Skills Expert'',
               goal = ''Generate HR/behavioral interview questions with model answers.'',
               backstory = ''You have experience as HR evaluating communication, attitude and culture fit.'',
               llm = gemini_llm,
               verbose = True\<rparr>"

definition build_tips_agent :: "framework \<Rightarrow> LLM \<Rightarrow> agent comp" where
  "build_tips_agent fw gemini_llm =
     Agent fw \<lparr>agent_role = ''Interview Coach'',
               goal = ''Give practical interview tips, mistakes to avoid, and tricks to impress interviewer.'',
               backstory = ''You mentor freshers for college placements.'',
               llm = gemini_llm,
               verbose = True\<rparr>"

subsection \<open>The four task descriptions\<close>

text \<open>
  The \<^verbatim>\<open>description=\<close> argument of each handler's \<^verbatim>\<open>Task(...)\<close>: adjacent string literals
  and f-strings, joined. \<open>role'\<close>, \<open>exp'\<close> and \<open>tech'\<close> stand for the handler's local variables
  \<^verbatim>\<open>role\<close>, \<^verbatim>\<open>exp\<close> and \<^verbatim>\<open>tech\<close>, all of type \<^verbatim>\<open>str\<close>.
\<close>

definition overview_description :: "string \<Rightarrow> string \<Rightarrow> string \<Rightarrow> string" where
  "overview_description role' exp' tech' =
     ''Write a structured plain-text interview overview for the role: '' @ role' @ ''.\<newline>''
     @ ''Experience level: '' @ exp' @ '', Tech stack: '' @ tech' @ ''.\<newline>''
     @ ''Include: role summary, key responsibilities, technical skills, soft skills, ''
     @ ''and typical interview rounds (online test, technical rounds, HR, etc.).\<newline>''
     @ ''Important: No markdown (*, #, **). Plain clean text only.''"

definition technical_description :: "string \<Rightarrow> string \<Rightarrow> string \<Rightarrow> string" where
  "technical_description role' exp' tech' =
     ''Generate 10 technical interview questions and answers for the job role: '' @ role' @ ''.\<newline>''
     @ ''Target candidate level: '' @ exp' @ ''. Relevant technologies: '' @ tech' @ ''.\<newline>''
     @ ''Use ONLY plain text (no markdown).\<newline>''
     @ ''Format STRICTLY like this:\<newline>''
     @ ''Q1: <question text>\<newline>''
     @ ''A1: <answer text>\<newline>''
     @ ''Q2: <question text>\<newline>''
     @ ''A2: <answer text>\<newline>''
     @ ''...\<newline>''
     @ ''Questions should test core fundamentals, problem solving, and role-specific concepts.''"

text \<open>The HR template has one placeholder, \<^verbatim>\<open>{role}\<close>.\<close>

definition hr_description :: "string \<Rightarrow> string" where
  "hr_description role' =
     ''Generate 10 HR and behavioral interview questions with strong sample answers ''
     @ ''for a candidate applying as '' @ role' @ ''.\<newline>''
     @ ''Focus on communication, teamwork, conflicts, strengths/weaknesses, failure, pressure handling, etc.\<newline>''
     @ ''Plain text only. No markdown.\<newline>''
     @ ''Format STRICTLY like this:\<newline>''
     @ ''Q1: <question text>\<newline>''
     @ ''A1: <answer text>\<newline>''
     @ ''Q2: <question text>\<newline>''
     @ ''A2: <answer text>\<newline>''
     @ ''...\<newline>''
     @ ''Answers should sound like a good B.Tech student preparing for placements.''"

definition tips_description :: "string \<Rightarrow> string \<Rightarrow> string \<Rightarrow> string" where
  "tips_description role' exp' tech' =
     ''Give interview tips specifically for the role: '' @ role' @ ''.\<newline>''
     @ ''Candidate level: '' @ exp' @ '', Tech: '' @ tech' @ ''.\<newline>''
     @ ''Include:\<newline>''
     @ ''- Do's before the interview (preparation, resume, projects).\<newline>''
     @ ''- Do's during the interview (body language, how to answer).\<newline>''
     @ ''- Don'ts (common mistakes students make).\<newline>''
     @ ''- Final motivation / confidence boost.\<newline>''
     @ ''Use plain text, no markdown, and keep it crisp and practical.''"

subsection \<open>The POST handlers\<close>

text \<open>
  Each handler is split as the source is: the body of the \<^verbatim>\<open>try\<close> block, and the handler
  around it. A handler returns the dict it builds (an association list in the order of
  the dict display) together with the events of the run.
\<close>

definition overview_try :: "framework \<Rightarrow> LLM \<Rightarrow> string \<Rightarrow> string \<Rightarrow> string \<Rightarrow> string comp" where
  "overview_try fw gemini_llm role' exp' tech' =
     bind_try (build_career_agent fw gemini_llm) (\<lambda>career_agent.
     bind_try (Task fw \<lparr>description = overview_description role' exp' tech',
                        expected_output = ''Structured interview overview in plain text.'',
                        task_agent = career_agent\<rparr>) (\<lambda>overview_task.
     bind_try (Crew fw \<lparr>agents = [career_agent], tasks = [overview_task], crew_verbose = True\<rparr>) (\<lambda>crew.
     bind_try (kickoff fw crew) (\<lambda>result.
     (Inr (str_output result), [])))))"

definition generate_overview ::
  "framework \<Rightarrow> LLM \<Rightarrow> JobRoleRequest \<Rightarrow> (string \<times> json) list \<times> event list" where
  "generate_overview fw gemini_llm request =
     (let role' = role request;
          exp' = py_or (experience_level request) ''Fresher'';
          tech' = py_or (tech_stack request) ''General'';
          (overview_text, events) =
            (case overview_try fw gemini_llm role' exp' tech' of
               (Inr text, evs) \<Rightarrow> (text, evs)
             | (Inl e, evs) \<Rightarrow>
                 (''Error generating overview: '' @ str_of e,
                  evs @ [Print (''Error in overview generation: '' @ str_of e), Print_exc e]))
      in ([(''role'', JStr role'),
           (''experience_level'', JStr exp'),
           (''tech_stack'', JStr tech'),
           (''overview'', JStr overview_text)], events))"

definition technical_try :: "framework \<Rightarrow> LLM \<Rightarrow> string \<Rightarrow> string \<Rightarrow> string \<Rightarrow> string comp" where
  "technical_try fw gemini_llm role' exp' tech' =
     bind_try (build_technical_agent fw gemini_llm) (\<lambda>technical_agent.
     bind_try (Task fw \<lparr>description = technical_description role' exp' tech',
                        expected_output = ''10 technical Q&A pairs in the specified Q/A format.'',
                        task_agent = technical_agent\<rparr>) (\<lambda>technical_task.
     bind_try (Crew fw \<lparr>agents = [technical_agent], tasks = [technical_task], crew_verbose = True\<rparr>) (\<lambda>crew.
     bind_try (kickoff fw crew) (\<lambda>result.
     (Inr (str_output result), [])))))"

definition generate_technical_qa ::
  "framework \<Rightarrow> LLM \<Rightarrow> JobRoleRequest \<Rightarrow> (string \<times> json) list \<times> event list" where
  "generate_technical_qa fw gemini_llm request =
     (let role' = role request;
          exp' = py_or (experience_level request) ''Fresher'';
          tech' = py_or (tech_stack request) ''General'';
          (technical_text, events) =
            (case technical_try fw gemini_llm role' exp' tech' of
               (Inr text, evs) \<Rightarrow> (text, evs)
             | (Inl e, evs) \<Rightarrow>
                 (''Error generating technical Q&A: '' @ str_of e,
                  evs @ [Print (''Error in technical Q&A generation: '' @ str_of e), Print_exc e]))
      in ([(''role'', JStr role'),
           (''experience_level'', JStr exp'),
           (''tech_stack'', JStr tech'),
           (''technical_qa'', JStr technical_text)], events))"

definition hr_try :: "framework \<Rightarrow> LLM \<Rightarrow> string \<Rightarrow> string comp" where
  "hr_try fw gemini_llm role' =
     bind_try (build_hr_agent fw gemini_llm) (\<lambda>hr_agent.
     bind_try (Task fw \<lparr>description = hr_description role',
                        expected_output = ''10 HR Q&A pairs in the specified Q/A format.'',
                        task_agent = hr_agent\<rparr>) (\<lambda>hr_task.
     bind_try (Crew fw \<lparr>agents = [hr_agent], tasks = [hr_task], crew_verbose = True\<rparr>) (\<lambda>crew.
     bind_try (kickoff fw crew) (\<lambda>result.
     (Inr (str_output result), [])))))"

definition generate_hr_qa ::
  "framework \<Rightarrow> LLM \<Rightarrow> JobRoleRequest \<Rightarrow> (string \<times> json) list \<times> event list" where
  "generate_hr_qa fw gemini_llm request =
     (let role' = role request;
          exp' = py_or (experience_level request) ''Fresher'';
          tech' = py_or (tech_stack request) ''General'';
          (hr_text, events) =
            (case hr_try fw gemini_llm role' of
               (Inr text, evs) \<Rightarrow> (text, evs)
             | (Inl e, evs) \<Rightarrow>
                 (''Error generating HR Q&A: '' @ str_of e,
                  evs @ [Print (''Error in HR Q&A generation: '' @ str_of e), Print_exc e]))
      in ([(''role'', JStr role'),
           (''experience_level'', JStr exp'),
           (''tech_stack'', JStr tech'),
           (''hr_qa'', JStr hr_text)], events))"

definition tips_try :: "framework \<Rightarrow> LLM \<Rightarrow> string \<Rightarrow> string \<Rightarrow> string \<Rightarrow> string comp" where
  "tips_try fw gemini_llm role' exp' tech' =
     bind_try (build_tips_agent fw gemini_llm) (\<lambda>tips_agent.
     bind_try (Task fw \<lparr>description = tips_description role' exp' tech',
                        expected_output = ''Practical do's, don'ts and success tips in plain text.'',
                        task_agent = tips_agent\<rparr>) (\<lambda>tips_task.
     bind_try (Crew fw \<lparr>agents = [tips_agent], tasks = [tips_task], crew_verbose = True\<rparr>) (\<lambda>crew.
     bind_try (kickoff fw crew) (\<lambda>result.
     (Inr (str_output result), [])))))"

definition generate_interview_tips ::
  "framework \<Rightarrow> LLM \<Rightarrow> JobRoleRequest \<Rightarrow> (string \<times> json) list \<times> event list" where
  "generate_interview_tips fw gemini_llm request =
     (let role' = role request;
          exp' = py_or (experience_level request) ''Fresher'';
          tech' = py_or (tech_stack request) ''General'';
          (tips_text, events) =
            (case tips_try fw gemini_llm role' exp' tech' of
               (Inr text, evs) \<Rightarrow> (text, evs)
             | (Inl e, evs) \<Rightarrow>
                 (''Error generating interview tips: '' @ str_of e,
                  evs @ [Print (''Error in tips generation: '' @ str_of e), Print_exc e]))
      in ([(''role'', JStr role'),
           (''experience_level'', JStr exp'),
           (''tech_stack'', JStr tech'),
           (''interview_tips'', JStr tips_text)], events))"

subsection \<open>The web layer\<close>

text \<open>
  \<^verbatim>\<open>
  @app.get("/")
  def root():
      return FileResponse("static/index.html")

  @app.get("/health")
  def health_check():
      return {"status": "ok"}
  \<close>
  A handler that returns a dict is answered with status 200 and the dict as JSON. A body
  that fails validation is answered by the web framework itself and the handler is not
  called: the module registers no exception handler of its own, so the framework's
  default one builds a response with status 422 whose content lists the errors, each with
  the input it rejected. The content is rendered with \<^verbatim>\<open>allow_nan=False\<close>; when an echoed
  input holds a float that is not finite, rendering raises and the server answers 500.
\<close>

datatype response =
    JSONResponse nat json
  | FileResponse string
  | RequestValidationError
  | InternalServerError

fun status_code :: "response \<Rightarrow> nat" where
  "status_code (JSONResponse n _) = n"
| "status_code (FileResponse _) = 200"
| "status_code RequestValidationError = 422"
| "status_code InternalServerError = 500"

definition request_validation_exception_handler :: "validation_error list \<Rightarrow> response" where
  "request_validation_exception_handler errors =
     (if list_ex (\<lambda>err. has_non_finite (err_input err)) errors then InternalServerError
      else RequestValidationError)"

fun response_items :: "response \<Rightarrow> (string \<times> json) list" where
  "response_items (JSONResponse _ (JObj d)) = d"
| "response_items _ = []"

definition response_keys :: "response \<Rightarrow> string list" where
  "response_keys r = map fst (response_items r)"

definition response_field :: "response \<Rightarrow> string \<Rightarrow> json option" where
  "response_field r k = map_of (response_items r) k"

definition root :: response where
  "root = FileResponse ''static/index.html''"

definition health_check :: "(string \<times> json) list" where
  "health_check = [(''status'', JStr ''ok'')]"

text \<open>
  A POST route whose handler takes one \<^verbatim>\<open>JobRoleRequest\<close>. The body is \<open>None\<close> when the
  request has no body or one that is not JSON; the error reported then echoes no input.
\<close>

definition post_route ::
  "(JobRoleRequest \<Rightarrow> (string \<times> json) list \<times> event list) \<Rightarrow> json option \<Rightarrow> response \<times> event list" where
  "post_route handler body =
     (case body of
        None \<Rightarrow> (RequestValidationError, [])
      | Some b \<Rightarrow>
         (case JobRoleRequest_validate b of
            None \<Rightarrow> (request_validation_exception_handler (validation_errors b), [])
          | Some request \<Rightarrow>
             (case handler request of (d, evs) \<Rightarrow> (JSONResponse 200 (JObj d), evs))))"

datatype http_method = GET | POST | PUT | PATCH | DELETE | HEAD | OPTIONS

record http_request =
  http_method :: http_method
  path :: string
  body :: "json option"

text \<open>
  The route table, in the order of the decorators. \<open>None\<close> stands for every request that
  is not for one of the six routes (the static mount, unknown paths, other methods).
\<close>

definition app :: "framework \<Rightarrow> LLM \<Rightarrow> http_request \<Rightarrow> (response \<times> event list) option" where
  "app fw gemini_llm rq =
     (if http_method rq = GET \<and> path rq = ''/'' then Some (root, [])
      else if http_method rq = GET \<and> path rq = ''/health'' then
        Some (JSONResponse 200 (JObj health_check), [])
      else if http_method rq = POST \<and> path rq = ''/generate_overview'' then
        Some (post_route (generate_overview fw gemini_llm) (body rq))
      else if http_method rq = POST \<and> path rq = ''/generate_technical_qa'' then
        Some (post_route (generate_technical_qa fw gemini_llm) (body rq))
      else if http_method rq = POST \<and> path rq = ''/generate_hr_qa'' then
        Some (post_route (generate_hr_qa fw gemini_llm) (body rq))
      else if http_method rq = POST \<and> path rq = ''/generate_interview_tips'' then
        Some (post_route (generate_interview_tips fw gemini_llm) (body rq))
      else None)"

subsection \<open>The four categories\<close>

text \<open>
  The four POST routes differ in their agent, their template and three strings. The
  functions below name, for each category, the parts of its handler, so that a statement
  about ``each POST endpoint'' can be made once.
\<close>

datatype category = Overview | Technical_QA | HR_QA | Interview_Tips

fun category_path :: "category \<Rightarrow> string" where
  "category_path Overview = ''/generate_overview''"
| "category_path Technical_QA = ''/generate_technical_qa''"
| "category_path HR_QA = ''/generate_hr_qa''"
| "category_path Interview_Tips = ''/generate_interview_tips''"

fun category_field :: "category \<Rightarrow> string" where
  "category_field Overview = ''overview''"
| "category_field Technical_QA = ''technical_qa''"
| "category_field HR_QA = ''hr_qa''"
| "category_field Interview_Tips = ''interview_tips''"

definition category_fields :: "string list" where
  "category_fields = map category_field [Overview, Technical_QA, HR_QA, Interview_Tips]"

text \<open>The name that the handler's error text gives its category.\<close>

fun error_label :: "category \<Rightarrow> string" where
  "error_label Overview = ''overview''"
| "error_label Technical_QA = ''technical Q&A''"
| "error_label HR_QA = ''HR Q&A''"
| "error_label Interview_Tips = ''interview tips''"

fun handler ::
  "category \<Rightarrow> framework \<Rightarrow> LLM \<Rightarrow> JobRoleRequest \<Rightarrow> (string \<times> json) list \<times> event list" where
  "handler Overview = generate_overview"
| "handler Technical_QA = generate_technical_qa"
| "handler HR_QA = generate_hr_qa"
| "handler Interview_Tips = generate_interview_tips"

fun attempt ::
  "category \<Rightarrow> framework \<Rightarrow> LLM \<Rightarrow> string \<Rightarrow> string \<Rightarrow> string \<Rightarrow> string comp" where
  "attempt Overview fw gemini_llm role' exp' tech' = overview_try fw gemini_llm role' exp' tech'"
| "attempt Technical_QA fw gemini_llm role' exp' tech' = technical_try fw gemini_llm role' exp' tech'"
| "attempt HR_QA fw gemini_llm role' exp' tech' = hr_try fw gemini_llm role'"
| "attempt Interview_Tips fw gemini_llm role' exp' tech' = tips_try fw gemini_llm role' exp' tech'"

fun task_description :: "category \<Rightarrow> string \<Rightarrow> string \<Rightarrow> string \<Rightarrow> string" where
  "task_description Overview role' exp' tech' = overview_description role' exp' tech'"
| "task_description Technical_QA role' exp' tech' = technical_description role' exp' tech'"
| "task_description HR_QA role' exp' tech' = hr_description role'"
| "task_description Interview_Tips role' exp' tech' = tips_description role' exp' tech'"

fun task_expected_output :: "category \<Rightarrow> string" where
  "task_expected_output Overview = ''Structured interview overview in plain text.''"
| "task_expected_output Technical_QA = ''10 technical Q&A pairs in the specified Q/A format.''"
| "task_expected_output HR_QA = ''10 HR Q&A pairs in the specified Q/A format.''"
| "task_expected_output Interview_Tips = ''Practical do's, don'ts and success tips in plain text.''"

text \<open>
  The arguments that the handler of a category passes to the framework: the agent of its
  \<^verbatim>\<open>build_..._agent\<close> function, the task for a request, and the crew of the two.
\<close>

fun category_agent :: "category \<Rightarrow> LLM \<Rightarrow> agent" where
  "category_agent Overview gemini_llm =
     \<lparr>agent_role = ''Career Research Expert'',
      goal = ''Explain job roles, skills, learning paths, and expectations.'',
      backstory = ''You help students understand technical job profiles.'',
      llm = gemini_llm,
      verbose = True\<rparr>"
| "category_agent Technical_QA gemini_llm =
     \<lparr>agent_role = ''Technical Interview Expert'',
      goal = ''Generate technical interview questions and detailed answers based on job role.'',
      backstory = ''You have experience as a technical interviewer across IT companies.'',
      llm = gemini_llm,
      verbose = True\<rparr>"
| "category_agent HR_QA gemini_llm =
     \<lparr>agent_role = ''HR Interview & Soft Skills Expert'',
      goal = ''Generate HR/behavioral interview questions with model answers.'',
      backstory = ''You have experience as HR evaluating communication, attitude and culture fit.'',
      llm = gemini_llm,
      verbose = True\<rparr>"
| "category_agent Interview_Tips gemini_llm =
     \<lparr>agent_role = ''Interview Coach'',
      goal = ''Give practical interview tips, mistakes to avoid, and tricks to impress interviewer.'',
      backstory = ''You mentor freshers for college placements.'',
      llm = gemini_llm,
      verbose = True\<rparr>"

definition category_task :: "category \<Rightarrow> LLM \<Rightarrow> JobRoleRequest \<Rightarrow> task" where
  "category_task c gemini_llm request =
     \<lparr>description =
        task_description c (role request) (py_or (experience_level request) ''Fresher'')
          (py_or (tech_stack request) ''General''),
      expected_output = task_expected_output c,
      task_agent = category_agent c gemini_llm\<rparr>"

definition category_crew :: "category \<Rightarrow> LLM \<Rightarrow> JobRoleRequest \<Rightarrow> crew" where
  "category_crew c gemini_llm request =
     \<lparr>agents = [category_agent c gemini_llm],
      tasks = [category_task c gemini_llm request],
      crew_verbose = True\<rparr>"

text \<open>
  The answer to a POST request with body \<open>b\<close> on the route of a category, and the events of
  the run.
\<close>

definition endpoint ::
  "category \<Rightarrow> framework \<Rightarrow> LLM \<Rightarrow> json option \<Rightarrow> response \<times> event list" where
  "endpoint c fw gemini_llm b = post_route (handler c fw gemini_llm) b"

subsection \<open>Reading a run\<close>

text \<open>The tasks that a run passed to \<^verbatim>\<open>Task(...)\<close>.\<close>

fun task_calls :: "event list \<Rightarrow> task list" where
  "task_calls [] = []"
| "task_calls (Task_call t # evs) = t # task_calls evs"
| "task_calls (_ # evs) = task_calls evs"

text \<open>
  The shape the four \<^verbatim>\<open>try\<close> blocks share: build the agent \<open>a\<close>, the task \<open>mk a\<close>, the crew
  of the two, and run it.
\<close>

definition run_single :: "framework \<Rightarrow> agent \<Rightarrow> (agent \<Rightarrow> task) \<Rightarrow> string comp" where
  "run_single fw a mk =
     bind_try (Agent fw a) (\<lambda>ag.
     bind_try (Task fw (mk ag)) (\<lambda>t.
     bind_try (Crew fw \<lparr>agents = [ag], tasks = [t], crew_verbose = True\<rparr>) (\<lambda>c.
     bind_try (kickoff fw c) (\<lambda>result.
     (Inr (str_output result), [])))))"

subsection \<open>Concrete runs\<close>

text \<open>
  Two model clients as startup builds them, a framework whose calls all succeed, one
  whose model call fails, and the request bodies and validated requests that the
  concrete runs below use.
\<close>

definition gemini_test :: LLM where
  "gemini_test = \<lparr>model = ''gemini/gemini-2.5-pro'', api_key = ''test-key'', temperature = 4 / 10\<rparr>"

definition fw_ok :: framework where
  "fw_ok = \<lparr>Agent_init = (\<lambda>_. None), Task_init = (\<lambda>_. None), Crew_init = (\<lambda>_. None),
            Crew_kickoff = (\<lambda>_. Inr (CrewOutput ''Generated text.''))\<rparr>"

definition fw_down :: framework where
  "fw_down = \<lparr>Agent_init = (\<lambda>_. None), Task_init = (\<lambda>_. None), Crew_init = (\<lambda>_. None),
              Crew_kickoff = (\<lambda>_. Inl (Exception ''Connection refused''))\<rparr>"

definition body_role_only :: json where
  "body_role_only = JObj [(''role'', JStr ''Data Analyst'')]"

definition body_full :: json where
  "body_full = JObj [(''role'', JStr ''Backend Developer''),
                     (''experience_level'', JStr ''Fresher''),
                     (''tech_stack'', JStr ''Python, SQL'')]"

definition body_falsy :: json where
  "body_falsy = JObj [(''role'', JStr ''Data Analyst''),
                      (''experience_level'', JNull),
                      (''tech_stack'', JStr [])]"

definition request_defaults :: JobRoleRequest where
  "request_defaults = \<lparr>role = ''Data Analyst'', experience_level = None, tech_stack = None\<rparr>"

definition request_spelled_out :: JobRoleRequest where
  "request_spelled_out =
     \<lparr>role = ''Data Analyst'', experience_level = Some ''Fresher'', tech_stack = Some ''General''\<rparr>"

definition request_full :: JobRoleRequest where
  "request_full =
     \<lparr>role = ''Backend Developer'', experience_level = Some ''Fresher'',
      tech_stack = Some ''Python, SQL''\<rparr>"

definition gemini_other :: LLM where
  "gemini_other = \<lparr>model = ''gemini/gemini-2.5-pro'', api_key = ''other-key'', temperature = 4 / 10\<rparr>"

definition fw_no_agent :: framework where
  "fw_no_agent = \<lparr>Agent_init = (\<lambda>_. Some (Exception ''Invalid API key'')),
                  Task_init = (\<lambda>_. None), Crew_init = (\<lambda>_. None),
                  Crew_kickoff = (\<lambda>_. Inr (CrewOutput ''Generated text.''))\<rparr>"

definition body_overflow :: json where
  "body_overflow = JObj [(''tech_stack'', JFloat Pos_Infinity)]"

definition body_no_role :: json where
  "body_no_role = JObj [(''experience_level'', JStr ''Senior''), (''tech_stack'', JStr ''Go'')]"

section \<open>Properties\<close>

subsection \<open>Routing and the shape of a run\<close>

lemma app_post: "app fw gemini_llm \<lparr>http_method = POST, path = category_path c, body = b\<rparr> = Some (endpoint c fw gemini_llm b)"
  by (cases c) (simp_all add: app_def endpoint_def)

lemma run_single_unfold:
  "run_single fw a mk =
     (case Agent_init fw a of
        Some e \<Rightarrow> (Inl e, [Agent_call a])
      | None \<Rightarrow>
         (case Task_init fw (mk a) of
            Some e \<Rightarrow> (Inl e, [Agent_call a, Task_call (mk a)])
          | None \<Rightarrow>
             (case Crew_init fw \<lparr>agents = [a], tasks = [mk a], crew_verbose = True\<rparr> of
                Some e \<Rightarrow> (Inl e, [Agent_call a, Task_call (mk a),
                                    Crew_call \<lparr>agents = [a], tasks = [mk a], crew_verbose = True\<rparr>])
              | None \<Rightarrow>
                 (case Crew_kickoff fw \<lparr>agents = [a], tasks = [mk a], crew_verbose = True\<rparr> of
                    Inl e \<Rightarrow> (Inl e, [Agent_call a, Task_call (mk a),
                                        Crew_call \<lparr>agents = [a], tasks = [mk a], crew_verbose = True\<rparr>,
                                        Kickoff_call \<lparr>agents = [a], tasks = [mk a], crew_verbose = True\<rparr>])
                  | Inr out \<Rightarrow> (Inr (str_output out), [Agent_call a, Task_call (mk a),
                                        Crew_call \<lparr>agents = [a], tasks = [mk a], crew_verbose = True\<rparr>,
                                        Kickoff_call \<lparr>agents = [a], tasks = [mk a], crew_verbose = True\<rparr>])))))"
  by (simp add: run_single_def bind_try_def Agent_def Task_def Crew_def kickoff_def
           split: option.splits sum.splits)

lemma run_single_task_calls:
  "tk \<in> set (task_calls (snd (run_single fw a mk))) \<Longrightarrow> tk = mk a"
  by (auto simp: run_single_unfold split: option.splits sum.splits)

lemma attempt_shape:
  "\<exists>a mk. attempt c fw l r e t = run_single fw a mk \<and>
     (\<forall>ag. description (mk ag) = task_description c r e t \<and>
           expected_output (mk ag) = task_expected_output c)"
proof (cases c)
  case Overview
  show ?thesis unfolding Overview attempt.simps overview_try_def build_career_agent_def run_single_def
    by (intro exI conjI allI) (rule refl, simp_all)
next
  case Technical_QA
  show ?thesis unfolding Technical_QA attempt.simps technical_try_def build_technical_agent_def run_single_def
    by (intro exI conjI allI) (rule refl, simp_all)
next
  case HR_QA
  show ?thesis unfolding HR_QA attempt.simps hr_try_def build_hr_agent_def run_single_def
    by (intro exI conjI allI) (rule refl, simp_all)
next
  case Interview_Tips
  show ?thesis unfolding Interview_Tips attempt.simps tips_try_def build_tips_agent_def run_single_def
    by (intro exI conjI allI) (rule refl, simp_all)
qed

lemma handler_Inr:
  assumes "attempt c fw l (role req) (py_or (experience_level req) ''Fresher'')
             (py_or (tech_stack req) ''General'') = (Inr text, evs)"
  shows "handler c fw l req =
           ([(''role'', JStr (role req)),
             (''experience_level'', JStr (py_or (experience_level req) ''Fresher'')),
             (''tech_stack'', JStr (py_or (tech_stack req) ''General'')),
             (category_field c, JStr text)], evs)"
  using assms
  by (cases c)
     (simp_all add: generate_overview_def generate_technical_qa_def generate_hr_qa_def
        generate_interview_tips_def)

lemma handler_Inl:
  assumes "attempt c fw l (role req) (py_or (experience_level req) ''Fresher'')
             (py_or (tech_stack req) ''General'') = (Inl ex, evs)"
  shows "\<exists>s. handler c fw l req =
           ([(''role'', JStr (role req)),
             (''experience_level'', JStr (py_or (experience_level req) ''Fresher'')),
             (''tech_stack'', JStr (py_or (tech_stack req) ''General'')),
             (category_field c, JStr (''Error generating '' @ error_label c @ '': '' @ str_of ex))],
            evs @ [Print s, Print_exc ex])"
  using assms
  by (cases c)
     (simp_all add: generate_overview_def generate_technical_qa_def generate_hr_qa_def
        generate_interview_tips_def)

lemma endpoint_valid:
  "JobRoleRequest_validate b = Some req \<Longrightarrow>
   endpoint c fw l (Some b) =
     (JSONResponse 200 (JObj (fst (handler c fw l req))), snd (handler c fw l req))"
  by (simp add: endpoint_def post_route_def split: prod.splits)


lemma handler_run:
  obtains (failure) a mk ex evs s where
      "run_single fw a mk = (Inl ex, evs)"
      "\<forall>ag. description (mk ag) =
             task_description c (role req) (py_or (experience_level req) ''Fresher'')
               (py_or (tech_stack req) ''General'') \<and>
           expected_output (mk ag) = task_expected_output c"
      "handler c fw l req =
            ([(''role'', JStr (role req)),
              (''experience_level'', JStr (py_or (experience_level req) ''Fresher'')),
              (''tech_stack'', JStr (py_or (tech_stack req) ''General'')),
              (category_field c, JStr (''Error generating '' @ error_label c @ '': '' @ str_of ex))],
             evs @ [Print s, Print_exc ex])"
  | (success) a mk out evs where
      "run_single fw a mk = (Inr out, evs)"
      "\<forall>ag. description (mk ag) =
             task_description c (role req) (py_or (experience_level req) ''Fresher'')
               (py_or (tech_stack req) ''General'') \<and>
           expected_output (mk ag) = task_expected_output c"
      "handler c fw l req =
            ([(''role'', JStr (role req)),
              (''experience_level'', JStr (py_or (experience_level req) ''Fresher'')),
              (''tech_stack'', JStr (py_or (tech_stack req) ''General'')),
              (category_field c, JStr out)], evs)"
proof -
  obtain a mk where shape:
    "attempt c fw l (role req) (py_or (experience_level req) ''Fresher'')
       (py_or (tech_stack req) ''General'') = run_single fw a mk"
    "\<forall>ag. description (mk ag) =
             task_description c (role req) (py_or (experience_level req) ''Fresher'')
               (py_or (tech_stack req) ''General'') \<and>
           expected_output (mk ag) = task_expected_output c"
    using attempt_shape by blast
  obtain res evs where run: "run_single fw a mk = (res, evs)"
    by (cases "run_single fw a mk")
  show thesis
  proof (cases res)
    case (Inl ex)
    then have r: "run_single fw a mk = (Inl ex, evs)" using run by simp
    with shape(1) obtain s where "handler c fw l req =
            ([(''role'', JStr (role req)),
              (''experience_level'', JStr (py_or (experience_level req) ''Fresher'')),
              (''tech_stack'', JStr (py_or (tech_stack req) ''General'')),
              (category_field c, JStr (''Error generating '' @ error_label c @ '': '' @ str_of ex))],
             evs @ [Print s, Print_exc ex])"
      using handler_Inl [of c fw l req ex evs] by auto
    with r shape(2) show thesis by (rule failure)
  next
    case (Inr out)
    then have r: "run_single fw a mk = (Inr out, evs)" using run by simp
    with shape(1) have "handler c fw l req =
            ([(''role'', JStr (role req)),
              (''experience_level'', JStr (py_or (experience_level req) ''Fresher'')),
              (''tech_stack'', JStr (py_or (tech_stack req) ''General'')),
              (category_field c, JStr out)], evs)"
      using handler_Inr [of c fw l req out evs] by auto
    with r shape(2) show thesis by (rule success)
  qed
qed

lemma handler_dict:
  "\<exists>text. fst (handler c fw l req) =
     [(''role'', JStr (role req)),
      (''experience_level'', JStr (py_or (experience_level req) ''Fresher'')),
      (''tech_stack'', JStr (py_or (tech_stack req) ''General'')),
      (category_field c, JStr text)]"
  by (rule handler_run [of fw c req l]) simp_all

lemma task_calls_prints: "task_calls (xs @ [Print s, Print_exc ex]) = task_calls xs"
  by (induction xs rule: task_calls.induct) simp_all

lemma handler_task_calls:
  assumes "tk \<in> set (task_calls (snd (handler c fw l req)))"
  shows "description tk =
           task_description c (role req) (py_or (experience_level req) ''Fresher'')
             (py_or (tech_stack req) ''General'') \<and>
         expected_output tk = task_expected_output c"
proof (rule handler_run [of fw c req l])
  fix a mk ex evs s
  assume run: "run_single fw a mk = (Inl ex, evs)"
    and d: "\<forall>ag. description (mk ag) =
             task_description c (role req) (py_or (experience_level req) ''Fresher'')
               (py_or (tech_stack req) ''General'') \<and>
           expected_output (mk ag) = task_expected_output c"
    and h: "handler c fw l req =
            ([(''role'', JStr (role req)),
              (''experience_level'', JStr (py_or (experience_level req) ''Fresher'')),
              (''tech_stack'', JStr (py_or (tech_stack req) ''General'')),
              (category_field c, JStr (''Error generating '' @ error_label c @ '': '' @ str_of ex))],
             evs @ [Print s, Print_exc ex])"
  have "tk \<in> set (task_calls evs)" using assms h by (simp add: task_calls_prints)
  then have "tk = mk a" using run_single_task_calls [of tk fw a mk] run by simp
  with d show ?thesis by simp
next
  fix a mk out evs
  assume run: "run_single fw a mk = (Inr out, evs)"
    and d: "\<forall>ag. description (mk ag) =
             task_description c (role req) (py_or (experience_level req) ''Fresher'')
               (py_or (tech_stack req) ''General'') \<and>
           expected_output (mk ag) = task_expected_output c"
    and h: "handler c fw l req =
            ([(''role'', JStr (role req)),
              (''experience_level'', JStr (py_or (experience_level req) ''Fresher'')),
              (''tech_stack'', JStr (py_or (tech_stack req) ''General'')),
              (category_field c, JStr out)], evs)"
  have "tk \<in> set (task_calls evs)" using assms h by simp
  then have "tk = mk a" using run_single_task_calls [of tk fw a mk] run by simp
  with d show ?thesis by simp
qed

lemma attempt_run:
  "attempt c fw l (role req) (py_or (experience_level req) ''Fresher'')
     (py_or (tech_stack req) ''General'') =
   run_single fw (category_agent c l) (\<lambda>ag. (category_task c l req)\<lparr>task_agent := ag\<rparr>)"
  by (cases c)
     (simp_all add: overview_try_def technical_try_def hr_try_def tips_try_def
        build_career_agent_def build_technical_agent_def build_hr_agent_def build_tips_agent_def
        run_single_def category_task_def)

lemma attempt_outcome:
  "attempt c fw l (role req) (py_or (experience_level req) ''Fresher'')
     (py_or (tech_stack req) ''General'') =
     (case Agent_init fw (category_agent c l) of
        Some e \<Rightarrow> (Inl e, [Agent_call (category_agent c l)])
      | None \<Rightarrow>
         (case Task_init fw (category_task c l req) of
            Some e \<Rightarrow> (Inl e, [Agent_call (category_agent c l), Task_call (category_task c l req)])
          | None \<Rightarrow>
             (case Crew_init fw (category_crew c l req) of
                Some e \<Rightarrow> (Inl e, [Agent_call (category_agent c l), Task_call (category_task c l req),
                                    Crew_call (category_crew c l req)])
              | None \<Rightarrow>
                 (case Crew_kickoff fw (category_crew c l req) of
                    Inl e \<Rightarrow> (Inl e, [Agent_call (category_agent c l),
                                        Task_call (category_task c l req),
                                        Crew_call (category_crew c l req),
                                        Kickoff_call (category_crew c l req)])
                  | Inr out \<Rightarrow> (Inr (str_output out),
                                       [Agent_call (category_agent c l),
                                        Task_call (category_task c l req),
                                        Crew_call (category_crew c l req),
                                        Kickoff_call (category_crew c l req)])))))"
proof -
  have t: "(category_task c l req)\<lparr>task_agent := category_agent c l\<rparr> = category_task c l req"
    by (simp add: category_task_def)
  show ?thesis
    unfolding attempt_run run_single_unfold t category_crew_def ..
qed

lemma handler_fails:
  assumes "Agent_init fw (category_agent c l) = Some e \<or>
           Agent_init fw (category_agent c l) = None \<and>
             Task_init fw (category_task c l req) = Some e \<or>
           Agent_init fw (category_agent c l) = None \<and>
             Task_init fw (category_task c l req) = None \<and>
             Crew_init fw (category_crew c l req) = Some e \<or>
           Agent_init fw (category_agent c l) = None \<and>
             Task_init fw (category_task c l req) = None \<and>
             Crew_init fw (category_crew c l req) = None \<and>
             Crew_kickoff fw (category_crew c l req) = Inl e"
  shows "fst (handler c fw l req) =
     [(''role'', JStr (role req)),
      (''experience_level'', JStr (py_or (experience_level req) ''Fresher'')),
      (''tech_stack'', JStr (py_or (tech_stack req) ''General'')),
      (category_field c, JStr (''Error generating '' @ error_label c @ '': '' @ str_of e))]"
proof -
  obtain evs where "attempt c fw l (role req) (py_or (experience_level req) ''Fresher'')
     (py_or (tech_stack req) ''General'') = (Inl e, evs)"
    using assms unfolding attempt_outcome by auto
  from handler_Inl [OF this] show ?thesis by auto
qed

lemma handler_succeeds:
  assumes "Agent_init fw (category_agent c l) = None"
      and "Task_init fw (category_task c l req) = None"
      and "Crew_init fw (category_crew c l req) = None"
      and "Crew_kickoff fw (category_crew c l req) = Inr out"
  shows "handler c fw l req =
     ([(''role'', JStr (role req)),
       (''experience_level'', JStr (py_or (experience_level req) ''Fresher'')),
       (''tech_stack'', JStr (py_or (tech_stack req) ''General'')),
       (category_field c, JStr (str_output out))],
      [Agent_call (category_agent c l), Task_call (category_task c l req),
       Crew_call (category_crew c l req), Kickoff_call (category_crew c l req)])"
proof -
  have "attempt c fw l (role req) (py_or (experience_level req) ''Fresher'')
     (py_or (tech_stack req) ''General'') =
     (Inr (str_output out),
      [Agent_call (category_agent c l), Task_call (category_task c l req),
       Crew_call (category_crew c l req), Kickoff_call (category_crew c l req)])"
    using assms unfolding attempt_outcome by simp
  from handler_Inr [OF this] show ?thesis .
qed

lemmas run_defs =
  endpoint_def post_route_def dict_get_def Let_def
  generate_overview_def generate_technical_qa_def generate_hr_qa_def generate_interview_tips_def
  overview_try_def technical_try_def hr_try_def tips_try_def
  build_career_agent_def build_technical_agent_def build_hr_agent_def build_tips_agent_def
  bind_try_def Agent_def Task_def Crew_def kickoff_def
  fw_ok_def fw_down_def fw_no_agent_def
  body_role_only_def body_full_def body_falsy_def body_no_role_def body_overflow_def
  request_defaults_def request_spelled_out_def request_full_def
  response_field_def response_keys_def category_fields_def

subsection \<open>Generation failures\<close>

text \<open>
  Claim C1. Take a body that validates and a framework in which one of the calls of the
  route's handler raises the exception \<open>e\<close>: the construction of its agent, or, the agent
  built, the construction of its task, or, both built, the construction of the crew, or,
  all three built, the crew's kickoff. Then the POST route still answers with status 200,
  and the field of its category is the string \<^verbatim>\<open>Error generating <category>: \<close> followed
  by \<^verbatim>\<open>str(e)\<close>, where the category is named \<^verbatim>\<open>overview\<close>, \<^verbatim>\<open>technical Q&A\<close>, \<^verbatim>\<open>HR Q&A\<close>
  or \<^verbatim>\<open>interview tips\<close>.
\<close>

theorem generation_error_is_reported:
  assumes "JobRoleRequest_validate b = Some request"
      and "Agent_init fw (category_agent c gemini_llm) = Some e \<or>
           Agent_init fw (category_agent c gemini_llm) = None \<and>
             Task_init fw (category_task c gemini_llm request) = Some e \<or>
           Agent_init fw (category_agent c gemini_llm) = None \<and>
             Task_init fw (category_task c gemini_llm request) = None \<and>
             Crew_init fw (category_crew c gemini_llm request) = Some e \<or>
           Agent_init fw (category_agent c gemini_llm) = None \<and>
             Task_init fw (category_task c gemini_llm request) = None \<and>
             Crew_init fw (category_crew c gemini_llm request) = None \<and>
             Crew_kickoff fw (category_crew c gemini_llm request) = Inl e"
  shows "status_code (fst (endpoint c fw gemini_llm (Some b))) = 200 \<and>
         response_field (fst (endpoint c fw gemini_llm (Some b))) (category_field c) =
           Some (JStr (''Error generating '' @ error_label c @ '': '' @ str_of e))"
  using handler_fails [OF assms(2)] assms(1)
  by (cases c) (simp_all add: endpoint_valid response_field_def)

text \<open>
  The model call of the technical route fails with ``Connection refused'', and the agent
  of the overview route is rejected with ``Invalid API key''.
\<close>

theorem generation_error_is_reported_witness:
  "JobRoleRequest_validate body_full = Some request_full \<and>
   Agent_init fw_down (category_agent Technical_QA gemini_test) = None \<and>
   Task_init fw_down (category_task Technical_QA gemini_test request_full) = None \<and>
   Crew_init fw_down (category_crew Technical_QA gemini_test request_full) = None \<and>
   Crew_kickoff fw_down (category_crew Technical_QA gemini_test request_full) =
     Inl (Exception ''Connection refused'') \<and>
   status_code (fst (endpoint Technical_QA fw_down gemini_test (Some body_full))) = 200 \<and>
   response_field (fst (endpoint Technical_QA fw_down gemini_test (Some body_full))) ''technical_qa'' =
     Some (JStr ''Error generating technical Q&A: Connection refused'') \<and>
   Agent_init fw_no_agent (category_agent Overview gemini_test) = Some (Exception ''Invalid API key'') \<and>
   status_code (fst (endpoint Overview fw_no_agent gemini_test (Some body_full))) = 200 \<and>
   response_field (fst (endpoint Overview fw_no_agent gemini_test (Some body_full))) ''overview'' =
     Some (JStr ''Error generating overview: Invalid API key'')"
proof -
  have v: "JobRoleRequest_validate body_full = Some request_full"
    by (simp add: run_defs)
  have down: "Agent_init fw_down (category_agent Technical_QA gemini_test) = None"
    "Task_init fw_down (category_task Technical_QA gemini_test request_full) = None"
    "Crew_init fw_down (category_crew Technical_QA gemini_test request_full) = None"
    "Crew_kickoff fw_down (category_crew Technical_QA gemini_test request_full) =
       Inl (Exception ''Connection refused'')"
    by (simp_all add: fw_down_def)
  have rejected:
    "Agent_init fw_no_agent (category_agent Overview gemini_test) = Some (Exception ''Invalid API key'')"
    by (simp add: fw_no_agent_def)
  show ?thesis
    using v down rejected
      generation_error_is_reported [OF v, of fw_down Technical_QA gemini_test
        "Exception ''Connection refused''"]
      generation_error_is_reported [OF v, of fw_no_agent Overview gemini_test
        "Exception ''Invalid API key''"]
    by simp
qed

subsection \<open>What the task descriptions contain\<close>















subsection \<open>The response envelope\<close>

text \<open>
  Claim C2. For a body that validates, each of the four POST routes answers with status
  200 and a JSON object whose keys are exactly \<^verbatim>\<open>role\<close>, \<^verbatim>\<open>experience_level\<close>,
  \<^verbatim>\<open>tech_stack\<close> and the field of the route's category, in this order and without
  repetition; the category field is the only one of the four category fields among them,
  and every value is a string. This holds whatever the framework does.
\<close>

theorem post_response_shape:
  assumes "JobRoleRequest_validate b = Some request"
  shows "\<exists>d. fst (endpoint c fw gemini_llm (Some b)) = JSONResponse 200 (JObj d) \<and>
             map fst d = [''role'', ''experience_level'', ''tech_stack'', category_field c] \<and>
             distinct (map fst d) \<and>
             filter (\<lambda>k. k \<in> set category_fields) (map fst d) = [category_field c] \<and>
             (\<forall>v \<in> snd ` set d. \<exists>s. v = JStr s)"
proof -
  obtain out where d: "fst (handler c fw gemini_llm request) =
     [(''role'', JStr (role request)),
      (''experience_level'', JStr (py_or (experience_level request) ''Fresher'')),
      (''tech_stack'', JStr (py_or (tech_stack request) ''General'')),
      (category_field c, JStr out)]"
    using handler_dict by blast
  show ?thesis
    unfolding endpoint_valid [OF assms] d
    by (cases c) (simp_all add: category_fields_def)
qed

text \<open>The interview tips route on a full body, in a run where every call succeeds.\<close>

theorem post_response_shape_witness:
  "JobRoleRequest_validate body_full = Some request_full \<and>
   fst (endpoint Interview_Tips fw_ok gemini_test (Some body_full)) =
     JSONResponse 200 (JObj [(''role'', JStr ''Backend Developer''),
                             (''experience_level'', JStr ''Fresher''),
                             (''tech_stack'', JStr ''Python, SQL''),
                             (''interview_tips'', JStr ''Generated text.'')])"
proof -
  have v: "JobRoleRequest_validate body_full = Some request_full"
    by (simp add: run_defs)
  have e: "fst (endpoint Interview_Tips fw_ok gemini_test (Some body_full)) =
     JSONResponse 200 (JObj [(''role'', JStr ''Backend Developer''),
                             (''experience_level'', JStr ''Fresher''),
                             (''tech_stack'', JStr ''Python, SQL''),
                             (''interview_tips'', JStr ''Generated text.'')])"
    by (simp add: run_defs)
  show ?thesis using v e post_response_shape [OF v, of Interview_Tips fw_ok gemini_test] by simp
qed

subsection \<open>Defaults\<close>

lemma dict_get_None: "k \<notin> fst ` set kvs \<Longrightarrow> dict_get kvs k = None"
  by (simp add: dict_get_def map_of_eq_None_iff)

lemma validate_fields:
  assumes "JobRoleRequest_validate (JObj kvs) = Some request"
  shows "dict_get kvs ''role'' = Some (JStr (role request))"
    and "dict_get kvs ''experience_level'' = None \<Longrightarrow> experience_level request = Some ''Fresher''"
    and "dict_get kvs ''experience_level'' = Some JNull \<Longrightarrow> experience_level request = None"
    and "dict_get kvs ''experience_level'' = Some (JStr s) \<Longrightarrow> experience_level request = Some s"
    and "dict_get kvs ''tech_stack'' = None \<Longrightarrow> tech_stack request = None"
    and "dict_get kvs ''tech_stack'' = Some JNull \<Longrightarrow> tech_stack request = None"
    and "dict_get kvs ''tech_stack'' = Some (JStr s) \<Longrightarrow> tech_stack request = Some s"
proof -
  obtain rv where rv: "dict_get kvs ''role'' = Some rv"
    using assms by (auto split: option.splits)
  obtain r where r: "rv = JStr r"
    using assms rv by (cases rv) auto
  show "dict_get kvs ''role'' = Some (JStr (role request))"
    using assms rv r by (auto split: option.splits)
  show "dict_get kvs ''experience_level'' = None \<Longrightarrow> experience_level request = Some ''Fresher''"
    using assms rv r by (auto split: option.splits)
  show "dict_get kvs ''experience_level'' = Some JNull \<Longrightarrow> experience_level request = None"
    using assms rv r by (auto split: option.splits)
  show "dict_get kvs ''experience_level'' = Some (JStr s) \<Longrightarrow> experience_level request = Some s"
    using assms rv r by (auto split: option.splits)
  show "dict_get kvs ''tech_stack'' = None \<Longrightarrow> tech_stack request = None"
    using assms rv r by (auto split: option.splits)
  show "dict_get kvs ''tech_stack'' = Some JNull \<Longrightarrow> tech_stack request = None"
    using assms rv r by (auto split: option.splits)
  show "dict_get kvs ''tech_stack'' = Some (JStr s) \<Longrightarrow> tech_stack request = Some s"
    using assms rv r by (auto split: option.splits)
qed

lemma endpoint_echo:
  assumes "JobRoleRequest_validate b = Some request"
  shows "response_field (fst (endpoint c fw gemini_llm (Some b))) ''role'' = Some (JStr (role request))"
    and "response_field (fst (endpoint c fw gemini_llm (Some b))) ''experience_level'' =
           Some (JStr (py_or (experience_level request) ''Fresher''))"
    and "response_field (fst (endpoint c fw gemini_llm (Some b))) ''tech_stack'' =
           Some (JStr (py_or (tech_stack request) ''General''))"
    and "response_keys (fst (endpoint c fw gemini_llm (Some b))) =
           [''role'', ''experience_level'', ''tech_stack'', category_field c]"
proof -
  obtain out where d: "fst (handler c fw gemini_llm request) =
     [(''role'', JStr (role request)),
      (''experience_level'', JStr (py_or (experience_level request) ''Fresher'')),
      (''tech_stack'', JStr (py_or (tech_stack request) ''General'')),
      (category_field c, JStr out)]"
    using handler_dict by blast
  show "response_field (fst (endpoint c fw gemini_llm (Some b))) ''role'' = Some (JStr (role request))"
    unfolding endpoint_valid [OF assms] d by (simp add: response_field_def)
  show "response_field (fst (endpoint c fw gemini_llm (Some b))) ''experience_level'' =
           Some (JStr (py_or (experience_level request) ''Fresher''))"
    unfolding endpoint_valid [OF assms] d by (simp add: response_field_def)
  show "response_field (fst (endpoint c fw gemini_llm (Some b))) ''tech_stack'' =
           Some (JStr (py_or (tech_stack request) ''General''))"
    unfolding endpoint_valid [OF assms] d by (simp add: response_field_def)
  show "response_keys (fst (endpoint c fw gemini_llm (Some b))) =
           [''role'', ''experience_level'', ''tech_stack'', category_field c]"
    unfolding endpoint_valid [OF assms] d by (simp add: response_keys_def)
qed

text \<open>
  Claim C3. For a body that validates and has no \<^verbatim>\<open>experience_level\<close> member, the response
  of each POST route has \<^verbatim>\<open>experience_level\<close> equal to \<^verbatim>\<open>"Fresher"\<close>; for one that has no
  \<^verbatim>\<open>tech_stack\<close> member, \<^verbatim>\<open>tech_stack\<close> is \<^verbatim>\<open>"General"\<close>.
\<close>

theorem omitted_fields_take_defaults:
  assumes "JobRoleRequest_validate (JObj kvs) = Some request"
  shows "(''experience_level'' \<notin> fst ` set kvs \<longrightarrow>
            response_field (fst (endpoint c fw gemini_llm (Some (JObj kvs)))) ''experience_level'' =
              Some (JStr ''Fresher'')) \<and>
         (''tech_stack'' \<notin> fst ` set kvs \<longrightarrow>
            response_field (fst (endpoint c fw gemini_llm (Some (JObj kvs)))) ''tech_stack'' =
              Some (JStr ''General''))"
  using validate_fields(2,5) [OF assms]
  by (auto simp: endpoint_echo [OF assms] dict_get_None)

text \<open>The body \<^verbatim>\<open>{"role": "Data Analyst"}\<close> on the overview route.\<close>

theorem omitted_fields_take_defaults_witness:
  "JobRoleRequest_validate body_role_only =
     Some \<lparr>role = ''Data Analyst'', experience_level = Some ''Fresher'', tech_stack = None\<rparr> \<and>
   response_field (fst (endpoint Overview fw_ok gemini_test (Some body_role_only))) ''experience_level'' =
     Some (JStr ''Fresher'') \<and>
   response_field (fst (endpoint Overview fw_ok gemini_test (Some body_role_only))) ''tech_stack'' =
     Some (JStr ''General'')"
proof -
  have v: "JobRoleRequest_validate (JObj [(''role'', JStr ''Data Analyst'')]) =
             Some \<lparr>role = ''Data Analyst'', experience_level = Some ''Fresher'', tech_stack = None\<rparr>"
    by (simp add: run_defs)
  show ?thesis
    using v omitted_fields_take_defaults [OF v, of Overview fw_ok gemini_test]
    by (simp add: body_role_only_def del: JobRoleRequest_validate.simps)
qed

text \<open>
  Claim C9. For a body that validates: an \<^verbatim>\<open>experience_level\<close> supplied as null or as the
  empty string is answered as \<^verbatim>\<open>"Fresher"\<close>, a \<^verbatim>\<open>tech_stack\<close> supplied as null or as the
  empty string is answered as \<^verbatim>\<open>"General"\<close>, and a non-empty string supplied for either
  field is echoed unchanged.
\<close>

theorem falsy_fields_take_defaults:
  assumes "JobRoleRequest_validate (JObj kvs) = Some request"
  shows "(dict_get kvs ''experience_level'' \<in> {Some JNull, Some (JStr [])} \<longrightarrow>
            response_field (fst (endpoint c fw gemini_llm (Some (JObj kvs)))) ''experience_level'' =
              Some (JStr ''Fresher'')) \<and>
         (dict_get kvs ''tech_stack'' \<in> {Some JNull, Some (JStr [])} \<longrightarrow>
            response_field (fst (endpoint c fw gemini_llm (Some (JObj kvs)))) ''tech_stack'' =
              Some (JStr ''General'')) \<and>
         (\<forall>s. s \<noteq> [] \<and> dict_get kvs ''experience_level'' = Some (JStr s) \<longrightarrow>
            response_field (fst (endpoint c fw gemini_llm (Some (JObj kvs)))) ''experience_level'' =
              Some (JStr s)) \<and>
         (\<forall>s. s \<noteq> [] \<and> dict_get kvs ''tech_stack'' = Some (JStr s) \<longrightarrow>
            response_field (fst (endpoint c fw gemini_llm (Some (JObj kvs)))) ''tech_stack'' =
              Some (JStr s))"
  using validate_fields(3,4,6,7) [OF assms]
  by (auto simp: endpoint_echo [OF assms])

text \<open>
  A body with a null level and an empty stack, and a body with both fields spelled out, on
  the HR route.
\<close>

theorem falsy_fields_take_defaults_witness:
  "JobRoleRequest_validate body_falsy =
     Some \<lparr>role = ''Data Analyst'', experience_level = None, tech_stack = Some []\<rparr> \<and>
   response_field (fst (endpoint HR_QA fw_ok gemini_test (Some body_falsy))) ''experience_level'' =
     Some (JStr ''Fresher'') \<and>
   response_field (fst (endpoint HR_QA fw_ok gemini_test (Some body_falsy))) ''tech_stack'' =
     Some (JStr ''General'') \<and>
   response_field (fst (endpoint HR_QA fw_ok gemini_test (Some body_full))) ''experience_level'' =
     Some (JStr ''Fresher'') \<and>
   response_field (fst (endpoint HR_QA fw_ok gemini_test (Some body_full))) ''tech_stack'' =
     Some (JStr ''Python, SQL'')"
proof -
  have v: "JobRoleRequest_validate
             (JObj [(''role'', JStr ''Data Analyst''), (''experience_level'', JNull),
                    (''tech_stack'', JStr [])]) =
           Some \<lparr>role = ''Data Analyst'', experience_level = None, tech_stack = Some []\<rparr>"
    by (simp add: run_defs)
  have w: "JobRoleRequest_validate
             (JObj [(''role'', JStr ''Backend Developer''), (''experience_level'', JStr ''Fresher''),
                    (''tech_stack'', JStr ''Python, SQL'')]) = Some request_full"
    by (simp add: run_defs)
  show ?thesis
    using v falsy_fields_take_defaults [OF v, of HR_QA fw_ok gemini_test]
      falsy_fields_take_defaults [OF w, of HR_QA fw_ok gemini_test]
    by (simp add: body_falsy_def body_full_def dict_get_def del: JobRoleRequest_validate.simps)
qed

subsection \<open>Validation failures\<close>








subsection \<open>The health route\<close>

text \<open>
  Claim C6. \<^verbatim>\<open>GET /health\<close> is answered with status 200 and the payload
  \<^verbatim>\<open>{"status": "ok"}\<close>, for every request body, every model client and every behaviour
  of the framework, and without any call into the framework.
\<close>

theorem health_check_is_fixed:
  "app fw gemini_llm \<lparr>http_method = GET, path = ''/health'', body = b\<rparr> =
     Some (JSONResponse 200 (JObj [(''status'', JStr ''ok'')]), [])"
  by (simp add: app_def health_check_def)

subsection \<open>Determinism of the prompt\<close>

text \<open>
  Claim C7. Take two runs of the handler of one category, under any two frameworks and
  any two model clients, on requests with the same role, the same experience level and
  the same technology stack (after defaulting). Any task built in the first run and any
  task built in the second have the same description and the same expected-output text.
\<close>

theorem prompt_composition_is_deterministic:
  assumes "tk1 \<in> set (task_calls (snd (handler c fw1 llm1 request1)))"
      and "tk2 \<in> set (task_calls (snd (handler c fw2 llm2 request2)))"
      and "role request1 = role request2"
      and "py_or (experience_level request1) ''Fresher'' = py_or (experience_level request2) ''Fresher''"
      and "py_or (tech_stack request1) ''General'' = py_or (tech_stack request2) ''General''"
  shows "description tk1 = description tk2 \<and> expected_output tk1 = expected_output tk2"
  using handler_task_calls [OF assms(1)] handler_task_calls [OF assms(2)] assms(3-5)
  by simp

text \<open>
  The overview handler where everything succeeds, on a request whose level and stack are
  unset, and where the model call fails under another API key, on a request that spells
  the defaults out.
\<close>

theorem prompt_composition_is_deterministic_witness:
  "description (hd (task_calls (snd (handler Overview fw_ok gemini_test request_defaults)))) =
     description (hd (task_calls (snd (handler Overview fw_down gemini_other request_spelled_out)))) \<and>
   expected_output (hd (task_calls (snd (handler Overview fw_ok gemini_test request_defaults)))) =
     expected_output (hd (task_calls (snd (handler Overview fw_down gemini_other request_spelled_out)))) \<and>
   description (hd (task_calls (snd (handler Overview fw_ok gemini_test request_defaults)))) =
     overview_description ''Data Analyst'' ''Fresher'' ''General''"
proof -
  have m1: "hd (task_calls (snd (handler Overview fw_ok gemini_test request_defaults)))
              \<in> set (task_calls (snd (handler Overview fw_ok gemini_test request_defaults)))"
    by (simp add: run_defs)
  have m2: "hd (task_calls (snd (handler Overview fw_down gemini_other request_spelled_out)))
              \<in> set (task_calls (snd (handler Overview fw_down gemini_other request_spelled_out)))"
    by (simp add: run_defs)
  have r: "role request_defaults = role request_spelled_out"
    by (simp add: request_defaults_def request_spelled_out_def)
  have e: "py_or (experience_level request_defaults) ''Fresher'' =
           py_or (experience_level request_spelled_out) ''Fresher''"
    by (simp add: request_defaults_def request_spelled_out_def)
  have t: "py_or (tech_stack request_defaults) ''General'' =
           py_or (tech_stack request_spelled_out) ''General''"
    by (simp add: request_defaults_def request_spelled_out_def)
  have d: "description (hd (task_calls (snd (handler Overview fw_ok gemini_test request_defaults)))) =
     overview_description ''Data Analyst'' ''Fresher'' ''General''"
    by (simp add: run_defs)
  show ?thesis
    using prompt_composition_is_deterministic [OF m1 m2 r e t] d by simp
qed

subsection \<open>Startup\<close>

text \<open>
  The variable is read after \<^verbatim>\<open>load_dotenv()\<close>: initialisation raises exactly when neither
  the process environment nor the \<^verbatim>\<open>.env\<close> file has it.
\<close>

lemma module_init_raises_iff:
  "(\<exists>err. module_init dotenv env = Inl err) \<longleftrightarrow>
     env ''GEMINI_API_KEY'' = None \<and> dotenv ''GEMINI_API_KEY'' = None"
  by (auto simp: module_init_def load_dotenv_def os_getenv_def map_add_def split: option.splits)

text \<open>
  Claim C8. If \<^verbatim>\<open>GEMINI_API_KEY\<close> is unset when the module reads it, initialisation ends
  with the \<^verbatim>\<open>ValueError\<close> and there is no application; if it is set to \<open>k\<close>,
  initialisation passes the check and builds the model client with \<open>k\<close> as its key.
\<close>

theorem credential_check:
  "(os_getenv (load_dotenv dotenv env) ''GEMINI_API_KEY'' = None \<longrightarrow>
      module_init dotenv env =
        Inl (ValueError ''GEMINI_API_KEY is not set. Please add it to your .env file.'')) \<and>
   (\<forall>k. os_getenv (load_dotenv dotenv env) ''GEMINI_API_KEY'' = Some k \<longrightarrow>
      module_init dotenv env =
        Inr \<lparr>model = ''gemini/gemini-2.5-pro'', api_key = k, temperature = 4 / 10\<rparr>)"
  by (simp add: module_init_def)

text \<open>An empty environment without a \<^verbatim>\<open>.env\<close> file, and an environment that has the key.\<close>

theorem credential_check_witness:
  "module_init Map.empty Map.empty =
     Inl (ValueError ''GEMINI_API_KEY is not set. Please add it to your .env file.'') \<and>
   module_init Map.empty [''GEMINI_API_KEY'' \<mapsto> ''test-key''] = Inr gemini_test"
  using credential_check [of Map.empty Map.empty]
    credential_check [of Map.empty "[''GEMINI_API_KEY'' \<mapsto> ''test-key'']"]
  by (simp add: load_dotenv_def os_getenv_def gemini_test_def)

subsection \<open>The envelope on the error path\<close>

text \<open>
  Claim C10. Take one body that validates, a framework in which one of the calls of the
  route's handler raises \<open>e\<close> (as in claim C1), and a framework in which all of them return.
  The two responses have the same keys, four of them and all different, and the same
  values for \<^verbatim>\<open>role\<close>, \<^verbatim>\<open>experience_level\<close> and \<^verbatim>\<open>tech_stack\<close>; they differ in the category
  field alone, which holds the error text in the one and the text of the model in the
  other.
\<close>

theorem error_path_preserves_envelope:
  assumes "JobRoleRequest_validate b = Some request"
      and "Agent_init fw1 (category_agent c llm1) = Some e \<or>
           Agent_init fw1 (category_agent c llm1) = None \<and>
             Task_init fw1 (category_task c llm1 request) = Some e \<or>
           Agent_init fw1 (category_agent c llm1) = None \<and>
             Task_init fw1 (category_task c llm1 request) = None \<and>
             Crew_init fw1 (category_crew c llm1 request) = Some e \<or>
           Agent_init fw1 (category_agent c llm1) = None \<and>
             Task_init fw1 (category_task c llm1 request) = None \<and>
             Crew_init fw1 (category_crew c llm1 request) = None \<and>
             Crew_kickoff fw1 (category_crew c llm1 request) = Inl e"
      and "Agent_init fw2 (category_agent c llm2) = None \<and>
           Task_init fw2 (category_task c llm2 request) = None \<and>
           Crew_init fw2 (category_crew c llm2 request) = None \<and>
           Crew_kickoff fw2 (category_crew c llm2 request) = Inr out"
  shows "response_keys (fst (endpoint c fw1 llm1 (Some b))) =
           response_keys (fst (endpoint c fw2 llm2 (Some b))) \<and>
         length (response_keys (fst (endpoint c fw1 llm1 (Some b)))) = 4 \<and>
         distinct (response_keys (fst (endpoint c fw1 llm1 (Some b)))) \<and>
         (\<forall>k \<in> {''role'', ''experience_level'', ''tech_stack''}.
            response_field (fst (endpoint c fw1 llm1 (Some b))) k =
            response_field (fst (endpoint c fw2 llm2 (Some b))) k \<and>
            response_field (fst (endpoint c fw1 llm1 (Some b))) k \<noteq> None) \<and>
         response_field (fst (endpoint c fw1 llm1 (Some b))) (category_field c) =
           Some (JStr (''Error generating '' @ error_label c @ '': '' @ str_of e)) \<and>
         response_field (fst (endpoint c fw2 llm2 (Some b))) (category_field c) =
           Some (JStr (str_output out))"
proof -
  have ok: "fst (handler c fw2 llm2 request) =
     [(''role'', JStr (role request)),
      (''experience_level'', JStr (py_or (experience_level request) ''Fresher'')),
      (''tech_stack'', JStr (py_or (tech_stack request) ''General'')),
      (category_field c, JStr (str_output out))]"
    using handler_succeeds [of fw2 c llm2 request out] assms(3) by simp
  show ?thesis
    using handler_fails [OF assms(2)] ok
    by (cases c)
       (simp_all add: endpoint_valid [OF assms(1)] response_field_def response_keys_def)
qed

text \<open>
  The overview route on a full body: the model call fails in one run and succeeds in the
  other; the responses differ in the \<^verbatim>\<open>overview\<close> field only.
\<close>

theorem error_path_preserves_envelope_witness:
  "JobRoleRequest_validate body_full = Some request_full \<and>
   Crew_kickoff fw_down (category_crew Overview gemini_test request_full) =
     Inl (Exception ''Connection refused'') \<and>
   Crew_kickoff fw_ok (category_crew Overview gemini_other request_full) =
     Inr (CrewOutput ''Generated text.'') \<and>
   response_keys (fst (endpoint Overview fw_down gemini_test (Some body_full))) =
     response_keys (fst (endpoint Overview fw_ok gemini_other (Some body_full))) \<and>
   response_keys (fst (endpoint Overview fw_down gemini_test (Some body_full))) =
     [''role'', ''experience_level'', ''tech_stack'', ''overview''] \<and>
   response_field (fst (endpoint Overview fw_down gemini_test (Some body_full))) ''tech_stack'' =
     response_field (fst (endpoint Overview fw_ok gemini_other (Some body_full))) ''tech_stack'' \<and>
   response_field (fst (endpoint Overview fw_down gemini_test (Some body_full))) ''overview'' =
     Some (JStr ''Error generating overview: Connection refused'') \<and>
   response_field (fst (endpoint Overview fw_ok gemini_other (Some body_full))) ''overview'' =
     Some (JStr ''Generated text.'')"
proof -
  have v: "JobRoleRequest_validate body_full = Some request_full"
    by (simp add: run_defs)
  have down:
    "Agent_init fw_down (category_agent Overview gemini_test) = Some (Exception ''Connection refused'') \<or>
     Agent_init fw_down (category_agent Overview gemini_test) = None \<and>
       Task_init fw_down (category_task Overview gemini_test request_full) =
         Some (Exception ''Connection refused'') \<or>
     Agent_init fw_down (category_agent Overview gemini_test) = None \<and>
       Task_init fw_down (category_task Overview gemini_test request_full) = None \<and>
       Crew_init fw_down (category_crew Overview gemini_test request_full) =
         Some (Exception ''Connection refused'') \<or>
     Agent_init fw_down (category_agent Overview gemini_test) = None \<and>
       Task_init fw_down (category_task Overview gemini_test request_full) = None \<and>
       Crew_init fw_down (category_crew Overview gemini_test request_full) = None \<and>
       Crew_kickoff fw_down (category_crew Overview gemini_test request_full) =
         Inl (Exception ''Connection refused'')"
    by (simp add: fw_down_def)
  have up:
    "Agent_init fw_ok (category_agent Overview gemini_other) = None \<and>
     Task_init fw_ok (category_task Overview gemini_other request_full) = None \<and>
     Crew_init fw_ok (category_crew Overview gemini_other request_full) = None \<and>
     Crew_kickoff fw_ok (category_crew Overview gemini_other request_full) =
       Inr (CrewOutput ''Generated text.'')"
    by (simp add: fw_ok_def)
  have keys: "response_keys (fst (endpoint Overview fw_down gemini_test (Some body_full))) =
     [''role'', ''experience_level'', ''tech_stack'', ''overview'']"
    by (simp add: run_defs)
  have refused: "Crew_kickoff fw_down (category_crew Overview gemini_test request_full) =
     Inl (Exception ''Connection refused'')"
    by (simp add: fw_down_def)
  show ?thesis
    using v refused up keys error_path_preserves_envelope [OF v down up]
    by simp
qed

end
